theory Spec2Isabelle
  imports Complex_Main "HOL-Library.Word"
begin

section \<open>The speaker's audio pipeline (rcute\_cozmars/speaker.py)\<close>

text \<open>
  The module turns a sound source into a sequence of fixed-size PCM blocks and pushes
  them, paced, into the robot's input stream. Python generators are modelled by the
  finite list of the items they yield, together with the exception (if any) that ends
  them.

  A Python float is modelled by the real number it denotes. The arithmetic on floats is
  not computed in the model: the sum, difference, product and quotient of two floats
  are parameters (\<open>fadd\<close>, \<open>fsub\<close>, \<open>fmul\<close>, \<open>fdiv\<close>), and so is numpy's
  arithmetic in a float type of a given width. Every general theorem below holds for
  any choice of these operations, so also for IEEE arithmetic. Comparisons and \<open>int()\<close>
  are exact on the numbers compared. The literal \<open>.95\<close> is written \<open>95 / 100\<close>.

  The \<open>util.mode\<close> decorator of the three methods (it only chooses between the blocking
  and the awaitable calling convention) and the lock of \<open>play\<close>, which matters to
  concurrent callers only, are not part of the model: one call runs from start to end.
\<close>

subsection \<open>Data\<close>

type_synonym byte = "8 word"

type_synonym block = "byte list"

text \<open>
  Exceptions are values. The string is the message of the Python exception; it tells
  the \<open>ValueError\<close> raised by \<open>beep\<close> apart from those raised by the libraries.
  \<open>NotModelled\<close> is the result of a library call on arguments for which the model
  does not say what the library does (see \<open>tone_segment\<close>).
\<close>

datatype error =
    ValueError string
  | TypeError string
  | AttributeError string
  | RuntimeError string
  | ZeroDivisionError
  | NotModelled

text \<open>
  A generator is the list of the items it yields and the exception, if any, that ends
  it after the last of them.
\<close>

type_synonym 'a gen = "'a list \<times> error option"

text \<open>
  A sample type is the numpy dtype name the source tests with \<open>startswith('int')\<close> and
  \<open>startswith('float')\<close>: \<open>IntT 16\<close> is \<open>'int16'\<close>, \<open>FloatT 32\<close> is \<open>'float32'\<close>, and
  \<open>UIntT 8\<close> is \<open>'uint8'\<close>, which starts with neither prefix.
\<close>

datatype dtype = IntT nat | UIntT nat | FloatT nat

text \<open>
  A numeric array is its dtype and its samples, one-dimensional (\<open>ndim = 1\<close>) or a list
  of rows with one entry per channel (\<open>ndim > 1\<close>). Samples are reals; an array of an
  integer dtype holds integral values.
\<close>

datatype ndarray = Arr1 dtype "real list" | Arr2 dtype "real list list"

text \<open>
  A pydub \<open>AudioSegment\<close> is modelled by what sounds in it, in order: a steady sine of a
  frequency (Hz) at a frame rate for some milliseconds, the same sine fading out into
  silence, or silence.
\<close>

datatype piece = Sine real real real | Fade real real real | Silence real real

type_synonym segment = "piece list"

text \<open>
  A phrase is a list whose elements are a pitch (what \<open>Tone(e)\<close> accepts) or a nested list.
\<close>

datatype 'p tone = Note 'p | Group "'p tone list"

text \<open>
  The argument of \<open>file_sr_bs_gen\<close>: a string, or a file-like object (an object with a
  \<open>read\<close> attribute, such as the \<open>io.BytesIO\<close> the function makes of a download).
\<close>

datatype file_src = Path string | Handle nat

text \<open>
  What the module uses and does not define, as parameters of the model:
  \<^item> Python's float arithmetic, \<open>fadd\<close>, \<open>fsub\<close>, \<open>fmul\<close>, \<open>fdiv\<close>;
  \<^item> \<open>util.sample_width\<close>, the byte width of a sample type;
  \<^item> numpy: the product and quotient in the float type of a given width (\<open>np_mul\<close>,
    \<open>np_div\<close>, the second operand being the Python integer \<open>np.iinfo(..).max\<close>), the cast
    of an integer sample to a float type (\<open>np_round\<close>), the cast to a signed integer
    type of a float outside that type's range (\<open>cast_overflow\<close>, which numpy leaves to
    the platform), the mean of one row in a given dtype (\<open>row_mean\<close>) and the bytes of a
    float sample (\<open>float_bytes\<close>);
  \<^item> gpiozero's \<open>Tone(e).frequency\<close> and pydub's \<open>raw_data\<close> of a segment;
  \<^item> \<open>urlopen(src).read()\<close> wrapped in \<open>io.BytesIO\<close>; \<open>sf.SoundFile(src)\<close>, which gives the
    file's sample rate and, for a dtype and a block size, its blocks, and is \<open>None\<close> when
    soundfile raises \<open>RuntimeError\<close>; \<open>librosa.get_samplerate\<close> and \<open>librosa.load\<close>, which
    gives a mono \<open>float32\<close> array and its rate.
\<close>

record 'p env =
  fadd :: "real \<Rightarrow> real \<Rightarrow> real"
  fsub :: "real \<Rightarrow> real \<Rightarrow> real"
  fmul :: "real \<Rightarrow> real \<Rightarrow> real"
  fdiv :: "real \<Rightarrow> real \<Rightarrow> real"
  sample_width :: "dtype \<Rightarrow> int"
  np_mul :: "nat \<Rightarrow> real \<Rightarrow> real \<Rightarrow> real"
  np_div :: "nat \<Rightarrow> real \<Rightarrow> real \<Rightarrow> real"
  np_round :: "nat \<Rightarrow> real \<Rightarrow> real"
  cast_overflow :: "nat \<Rightarrow> real \<Rightarrow> int"
  row_mean :: "dtype \<Rightarrow> real list \<Rightarrow> real"
  float_bytes :: "nat \<Rightarrow> real \<Rightarrow> byte list"
  tone_frequency :: "'p \<Rightarrow> real"
  raw_data :: "segment \<Rightarrow> byte list"
  urlopen_read :: "string \<Rightarrow> error + nat"
  sound_file :: "file_src \<Rightarrow> (real \<times> (dtype \<Rightarrow> int \<Rightarrow> ndarray list)) option"
  librosa_get_samplerate :: "file_src \<Rightarrow> error + real"
  librosa_load :: "file_src \<Rightarrow> real option \<Rightarrow> error + (real list \<times> real)"

text \<open>Python's \<open>int(x)\<close> on a float, and the C cast numpy uses: truncation toward zero.\<close>

definition py_int :: "real \<Rightarrow> int" where
  "py_int x = (if 0 \<le> x then \<lfloor>x\<rfloor> else \<lceil>x\<rceil>)"

subsection \<open>Chunking: \<open>raw_gen\<close>\<close>

text \<open>
  \<^verbatim>\<open>
  def raw_gen(data, dt, bs):
      bs = bs* util.sample_width(dt)
      for i in range(0, len(data), bs):
          b = data[i: i+ bs]
          if len(b) < bs:
              b += b'\x00' * (bs-len(b))
          yield b
  \<close>
  \<open>raw_blocks data step i\<close> is the loop from index \<open>i\<close> on, for a positive step.
  \<open>range\<close> raises \<open>ValueError\<close> on a zero step and is empty on a negative one.
\<close>

function raw_blocks :: "byte list \<Rightarrow> nat \<Rightarrow> nat \<Rightarrow> block list" where
  "raw_blocks data step i =
     (if step = 0 \<or> length data \<le> i then []
      else (let b = take step (drop i data)
            in if length b < step then b @ replicate (step - length b) 0 else b)
           # raw_blocks data step (i + step))"
  by pat_completeness auto
termination
  by (relation "measure (\<lambda>(data, step, i). length data - i)") auto

definition raw_gen :: "'p env \<Rightarrow> byte list \<Rightarrow> dtype \<Rightarrow> int \<Rightarrow> block gen" where
  "raw_gen e data dt bs =
     (let step = bs * sample_width e dt
      in if step = 0 then ([], Some (ValueError ''range() arg 3 must not be zero''))
         else if step < 0 then ([], None)
         else (raw_blocks data (nat step) 0, None))"

subsection \<open>Sample conversion: \<open>np_gen\<close>\<close>

text \<open>
  \<^verbatim>\<open>
  def np_gen(data, dt, bs):
      # convert data to specified dtype
      if data.ndim >1:
          data = data.mean(axis=1, dtype=dt)
      if str(data.dtype).startswith('float') and dt.startswith('int'):
          data = (data * np.iinfo(dt).max).astype(dt)
      elif str(data.dtype).startswith('int') and dt.startswith('float'):
          data = data.astype(dt) / np.iinfo(data.dtype).max
      # elif (int8 <--> int16 <--> int32 convertion, but int8/32 is very rarely used)
      yield from raw_gen(data.tobytes(), dt, bs)
  \<close>
  \<open>int_max w\<close> is \<open>np.iinfo\<close> of the signed \<open>w\<close>-bit type. \<open>astype_int\<close> is
  \<open>.astype(dt)\<close> from a float to a signed integer type: truncation toward zero when the
  truncated value is in the type's range, and what the platform does otherwise.
  \<open>mean(axis=1, dtype=dt)\<close> returns a one-dimensional array of dtype \<open>dt\<close>; \<open>to_mono\<close> is
  that step.
\<close>

definition int_max :: "nat \<Rightarrow> real" where
  "int_max w = 2 ^ (w - 1) - 1"

definition astype_int :: "'p env \<Rightarrow> nat \<Rightarrow> real \<Rightarrow> real" where
  "astype_int e w y =
     (if - (2 ^ (w - 1)) \<le> py_int y \<and> py_int y < 2 ^ (w - 1) then real_of_int (py_int y)
      else real_of_int (cast_overflow e w y))"

fun to_mono :: "'p env \<Rightarrow> dtype \<Rightarrow> ndarray \<Rightarrow> dtype \<times> real list" where
  "to_mono e dt (Arr1 d ys) = (d, ys)"
| "to_mono e dt (Arr2 d rows) = (dt, map (row_mean e dt) rows)"

fun np_convert :: "'p env \<Rightarrow> ndarray \<Rightarrow> dtype \<Rightarrow> dtype \<times> real list" where
  "np_convert e data dt =
     (let (sdt, xs) = to_mono e dt data
      in case (sdt, dt) of
           (FloatT v, IntT w) \<Rightarrow> (dt, map (\<lambda>x. astype_int e w (np_mul e v x (int_max w))) xs)
         | (IntT v, FloatT w) \<Rightarrow> (dt, map (\<lambda>x. np_div e w (np_round e w x) (int_max v)) xs)
         | _ \<Rightarrow> (sdt, xs))"

text \<open>\<open>tobytes\<close>: the samples in order, each in the array's own dtype, little-endian.\<close>

fun le_bytes :: "nat \<Rightarrow> int \<Rightarrow> byte list" where
  "le_bytes 0 n = []"
| "le_bytes (Suc k) n = word_of_int n # le_bytes k (n div 256)"

fun sample_bytes :: "'p env \<Rightarrow> dtype \<Rightarrow> real \<Rightarrow> byte list" where
  "sample_bytes e (IntT w) x = le_bytes (w div 8) (py_int x)"
| "sample_bytes e (UIntT w) x = le_bytes (w div 8) (py_int x)"
| "sample_bytes e (FloatT w) x = float_bytes e w x"

definition tobytes :: "'p env \<Rightarrow> dtype \<times> real list \<Rightarrow> byte list" where
  "tobytes e a = concat (map (sample_bytes e (fst a)) (snd a))"

definition np_gen :: "'p env \<Rightarrow> ndarray \<Rightarrow> dtype \<Rightarrow> int \<Rightarrow> block gen" where
  "np_gen e data dt bs = raw_gen e (tobytes e (np_convert e data dt)) dt bs"

subsection \<open>Decoding a file: \<open>file_sr_bs_gen\<close>\<close>

text \<open>
  \<^verbatim>\<open>
  def file_sr_bs_gen(src, sr, dt, block_duration):
      if src.startswith('http'):
          src = io.BytesIO(urlopen(src).read())
      try:
          file = sf.SoundFile(src)
          assert file.samplerate <= sr
          bs = int(block_duration * file.samplerate)
          return file.samplerate, bs, map(lambda b: (b if b.ndim==1
              else b.mean(axis=1, dtype=dt)).tobytes(),
              file.blocks(dtype=dt, blocksize=bs, fill_value=0))
      except (AssertionError, RuntimeError):
          if librosa.get_samplerate(src) < sr:
              sr = None
          y, sr = librosa.load(src, sr=sr, mono=True, res_type='kaiser_fast')
          bs = int(sr * block_duration)
          return sr, bs, np_gen(y, dt, bs)
  \<close>
  A file-like object has no \<open>startswith\<close>, so the first line raises \<open>AttributeError\<close>
  for it. \<open>librosa_fallback\<close> is the \<open>except\<close> branch.
\<close>

definition librosa_fallback :: "'p env \<Rightarrow> file_src \<Rightarrow> real \<Rightarrow> dtype \<Rightarrow> real
    \<Rightarrow> error + (real \<times> int \<times> block gen)" where
  "librosa_fallback e src sr dt block_duration =
     (case librosa_get_samplerate e src of
        Inl err \<Rightarrow> Inl err
      | Inr native \<Rightarrow>
          (case librosa_load e src (if native < sr then None else Some sr) of
             Inl err \<Rightarrow> Inl err
           | Inr (y, sr') \<Rightarrow>
               (let bs = py_int (fmul e sr' block_duration)
                in Inr (sr', bs, np_gen e (Arr1 (FloatT 32) y) dt bs))))"

definition decode :: "'p env \<Rightarrow> file_src \<Rightarrow> real \<Rightarrow> dtype \<Rightarrow> real
    \<Rightarrow> error + (real \<times> int \<times> block gen)" where
  "decode e src sr dt block_duration =
     (case sound_file e src of
        None \<Rightarrow> librosa_fallback e src sr dt block_duration
      | Some (samplerate, blocks) \<Rightarrow>
          if samplerate \<le> sr then
            (let bs = py_int (fmul e block_duration samplerate)
             in Inr (samplerate, bs,
                     (map (\<lambda>b. tobytes e (to_mono e dt b)) (blocks dt bs), None)))
          else librosa_fallback e src sr dt block_duration)"

definition file_sr_bs_gen :: "'p env \<Rightarrow> file_src \<Rightarrow> real \<Rightarrow> dtype \<Rightarrow> real
    \<Rightarrow> error + (real \<times> int \<times> block gen)" where
  "file_sr_bs_gen e src sr dt block_duration =
     (case src of
        Handle h \<Rightarrow> Inl (AttributeError ''startswith'')
      | Path s \<Rightarrow>
          if take 4 s = ''http'' then
            (case urlopen_read e s of
               Inl err \<Rightarrow> Inl err
             | Inr h \<Rightarrow> decode e (Handle h) sr dt block_duration)
          else decode e (Path s) sr dt block_duration)"

subsection \<open>Repetition: \<open>repeat_gen\<close>\<close>

text \<open>
  \<^verbatim>\<open>
  def repeat_gen(gen, repeat):
      if repeat == 1:
          yield from gen
      else:
          for g in itertools.tee(gen, repeat):
              yield from g
  \<close>
  \<open>itertools.tee(gen, n)\<close> returns \<open>n\<close> iterators that each yield the items of \<open>gen\<close>, and
  raises \<open>ValueError\<close> for a negative \<open>n\<close>. \<open>chain_gens\<close> is the \<open>for\<close> loop: it yields from
  each iterator in turn and stops at the first exception.
\<close>

definition tee :: "'a gen \<Rightarrow> int \<Rightarrow> error + 'a gen list" where
  "tee gen n = (if n < 0 then Inl (ValueError ''n must be >= 0'') else Inr (replicate (nat n) gen))"

fun chain_gens :: "'a gen list \<Rightarrow> 'a gen" where
  "chain_gens [] = ([], None)"
| "chain_gens ((xs, Some err) # gs) = (xs, Some err)"
| "chain_gens ((xs, None) # gs) = (xs @ fst (chain_gens gs), snd (chain_gens gs))"

definition repeat_gen :: "'a gen \<Rightarrow> int \<Rightarrow> 'a gen" where
  "repeat_gen gen repeat =
     (if repeat = 1 then gen
      else case tee gen repeat of Inl err \<Rightarrow> ([], Some err) | Inr gs \<Rightarrow> chain_gens gs)"

subsection \<open>Playback: \<open>Speaker.play\<close>\<close>

text \<open>
  The speaker holds the defaults set in \<open>__init__\<close> (\<open>dtype='int16'\<close>,
  \<open>sample_rate=22050\<close>, \<open>block_duration=.1\<close>) and the stream parameters \<open>_t_sr\<close>, \<open>_t_dt\<close>,
  \<open>_t_bs\<close> that \<open>_get_rpc\<close> reads when the stream is opened.
\<close>

record speaker =
  sample_rate :: real
  dtype :: dtype
  block_duration :: real
  t_sr :: real
  t_dt :: dtype
  t_bs :: int

text \<open>The keyword arguments \<open>**kw\<close> that \<open>play\<close> looks up.\<close>

record kw =
  kw_sample_rate :: "real option"
  kw_dtype :: "dtype option"
  kw_block_duration :: "real option"

text \<open>
  The source argument by the tests \<open>play\<close> makes on it: a string, an object with a
  \<open>read\<close> attribute, a numpy array, \<open>bytes\<close>, any other iterable (given by the blocks it
  yields), or anything else.
\<close>

datatype source =
    Str string
  | FileLike nat
  | NdArray ndarray
  | Bytes "byte list"
  | Blocks "block gen"
  | Other

text \<open>
  Modelled from the spec: the context manager of \<open>util.InputStreamComponent\<close>, which is
  not in this module. \<open>async with self\<close> opens the output channel with the session's
  sample rate, sample type and block size (\<open>Open\<close>) and closes it on every exit path
  (\<open>Close\<close>). The other two events are calls the module makes itself: \<open>Put\<close> is
  \<open>self._input_stream.put\<close> and \<open>Sleep\<close> is \<open>asyncio.sleep\<close>. A call is described by the
  events it causes, in order.
\<close>

datatype event = Open real dtype int | Put block | Sleep real | Close

text \<open>
  \<^verbatim>\<open>
  count = 0
  for raw in repeat_gen(src, repeat):
      await self._input_stream.put(raw)
      if count < preload:
          count += bd
      else:
          await asyncio.sleep(bd * .95)
  \<close>
\<close>

fun push_blocks :: "'p env \<Rightarrow> real \<Rightarrow> real \<Rightarrow> real \<Rightarrow> block list \<Rightarrow> event list" where
  "push_blocks e count preload bd [] = []"
| "push_blocks e count preload bd (raw # rest) =
     Put raw #
     (if count < preload then push_blocks e (fadd e count bd) preload bd rest
      else Sleep (fmul e bd (95 / 100)) # push_blocks e count preload bd rest)"

text \<open>
  The body of \<open>if isinstance(src, Iterable)\<close>: under the lock the stream parameters are
  stored, the channel is opened, the blocks are pushed, and the channel is closed, also
  when the generator raises.
\<close>

definition stream :: "'p env \<Rightarrow> speaker \<Rightarrow> real \<Rightarrow> dtype \<Rightarrow> int \<Rightarrow> real \<Rightarrow> block gen \<Rightarrow> int
    \<Rightarrow> real \<Rightarrow> speaker \<times> event list \<times> error option" where
  "stream e spk sr dt bs bd src repeat preload =
     (let g = repeat_gen src repeat
      in (spk\<lparr>t_sr := sr, t_dt := dt, t_bs := bs\<rparr>,
          Open sr dt bs # push_blocks e 0 preload bd (fst g) @ [Close],
          snd g))"

text \<open>
  \<^verbatim>\<open>
  sr = kw.get('sample_rate', self.sample_rate)
  dt = kw.get('dtype', self.dtype)
  bd = kw.get('block_duration', self.block_duration)
  bs = int(bd * sr)
  if isinstance(src, str) or hasattr(src, 'read'): # for file-like obj
      sr, bs, src = await ...run_in_executor(None, file_sr_bs_gen, src, sr, dt, bd)
  elif isinstance(src, np.ndarray):
      src = np_gen(src, dt, bs)
  elif isinstance(src, bytes):
      src = raw_gen(src, dt, bs)
  if isinstance(src, Iterable):
      async with self._lock: ...
  else:
      raise TypeError(f'Unable to open {src}')
  \<close>
  \<open>normalize_source\<close> is the \<open>if\<close>/\<open>elif\<close> chain: it gives the sample rate, the block size and
  the source as it is afterwards, a generator or (\<open>None\<close>) something that is not
  iterable.
\<close>

definition normalize_source :: "'p env \<Rightarrow> real \<Rightarrow> dtype \<Rightarrow> real \<Rightarrow> int \<Rightarrow> source
    \<Rightarrow> error + (real \<times> int \<times> block gen option)" where
  "normalize_source e sr dt bd bs src =
     (case src of
        Str s \<Rightarrow>
          (case file_sr_bs_gen e (Path s) sr dt bd of
             Inl err \<Rightarrow> Inl err
           | Inr (sr', bs', g) \<Rightarrow> Inr (sr', bs', Some g))
      | FileLike h \<Rightarrow>
          (case file_sr_bs_gen e (Handle h) sr dt bd of
             Inl err \<Rightarrow> Inl err
           | Inr (sr', bs', g) \<Rightarrow> Inr (sr', bs', Some g))
      | NdArray a \<Rightarrow> Inr (sr, bs, Some (np_gen e a dt bs))
      | Bytes b \<Rightarrow> Inr (sr, bs, Some (raw_gen e b dt bs))
      | Blocks g \<Rightarrow> Inr (sr, bs, Some g)
      | Other \<Rightarrow> Inr (sr, bs, None))"

definition play :: "'p env \<Rightarrow> speaker \<Rightarrow> source \<Rightarrow> int \<Rightarrow> real \<Rightarrow> kw
    \<Rightarrow> speaker \<times> event list \<times> error option" where
  "play e spk src repeat preload k =
     (let sr = (case kw_sample_rate k of None \<Rightarrow> sample_rate spk | Some v \<Rightarrow> v);
          dt = (case kw_dtype k of None \<Rightarrow> dtype spk | Some v \<Rightarrow> v);
          bd = (case kw_block_duration k of None \<Rightarrow> block_duration spk | Some v \<Rightarrow> v);
          bs = py_int (fmul e bd sr)
      in case normalize_source e sr dt bd bs src of
           Inl err \<Rightarrow> (spk, [], Some err)
         | Inr (sr', bs', Some g) \<Rightarrow> stream e spk sr' dt bs' bd g repeat preload
         | Inr (sr', bs', None) \<Rightarrow> (spk, [], Some (TypeError ''Unable to open'')))"

subsection \<open>Tones: \<open>max_freq\<close>, \<open>tone2audio\<close>, \<open>Speaker.beep\<close>\<close>

text \<open>
  \<^verbatim>\<open>
  def max_freq(tones):
      return functools.reduce(lambda r,e: max(r, max_freq(e) if isinstance(e, (list, tuple))
                                                 else Tone(e).frequency), tones, 0)
  \<close>
  \<open>max_freq_from e r tones\<close> is the reduction with accumulator \<open>r\<close>.
\<close>

fun max_freq_from :: "'p env \<Rightarrow> real \<Rightarrow> 'p tone list \<Rightarrow> real" where
  "max_freq_from e r [] = r"
| "max_freq_from e r (Note p # es) = max_freq_from e (max r (tone_frequency e p)) es"
| "max_freq_from e r (Group ts # es) = max_freq_from e (max r (max_freq_from e 0 ts)) es"

definition max_freq :: "'p env \<Rightarrow> 'p tone list \<Rightarrow> real" where
  "max_freq e tones = max_freq_from e 0 tones"

text \<open>
  The rendering of one pitch,
  \<^verbatim>\<open>
  Sine(Tone(e).frequency, sample_rate=sr).to_audio_segment(duration=duty)
      .append(AudioSegment.silent(duration=empty, frame_rate=sr), crossfade=empty)
  \<close>
  by pydub. A segment holds whole frames, and its \<open>len()\<close> is its duration rounded to
  whole milliseconds. \<open>append\<close> joins the two segments when \<open>crossfade\<close> is 0; otherwise
  it raises \<open>ValueError\<close> when \<open>crossfade\<close> exceeds the \<open>len()\<close> of either segment, and
  else mixes the last \<open>crossfade\<close> milliseconds of the first segment with the first
  \<open>crossfade\<close> milliseconds of the second, so that the result lasts
  \<open>len(seg1) + len(seg2) - crossfade\<close>.

  The model says what pydub does only where no rounding occurs: \<open>duty\<close> and \<open>empty\<close> are
  whole, non-negative numbers of milliseconds and the frame rate is a positive whole
  number of frames per millisecond. There both segments have exactly the requested
  length, the silence lasts exactly \<open>crossfade\<close>, and only the check against the first
  segment can fail. Elsewhere the result is \<open>NotModelled\<close>. (\<open>empty_ms\<close> is the source's
  \<open>empty\<close>.)
\<close>

definition whole :: "real \<Rightarrow> bool" where
  "whole x = (real_of_int \<lfloor>x\<rfloor> = x)"

definition tone_segment :: "real \<Rightarrow> real \<Rightarrow> real \<Rightarrow> real \<Rightarrow> error + segment" where
  "tone_segment f sr duty empty_ms =
     (if 0 \<le> duty \<and> 0 \<le> empty_ms \<and> whole duty \<and> whole empty_ms \<and> 0 < sr \<and> whole (sr / 1000)
      then (if empty_ms = 0 then Inr [Sine f sr duty]
            else if duty < empty_ms then
              Inl (ValueError ''Crossfade is longer than the original AudioSegment'')
            else Inr [Sine f sr (duty - empty_ms), Fade f sr empty_ms])
      else Inl NotModelled)"

text \<open>
  \<^verbatim>\<open>
  def tone2audio(tones, base_beat_ms, duty_cycle, sr):
      duty = base_beat_ms * duty_cycle
      empty = base_beat_ms - duty
      return functools.reduce(lambda r,e: r+(tone2audio(e, base_beat_ms/2, duty_cycle, sr)
              if isinstance(e, (list, tuple)) else
              Sine(...).to_audio_segment(duration=duty).append(..., crossfade=empty)),
          tones, AudioSegment.empty())
  \<close>
  \<open>tone2audio_from e r tones ...\<close> is the reduction with accumulator \<open>r\<close>; \<open>+\<close> on
  segments joins them.
\<close>

fun tone2audio_from :: "'p env \<Rightarrow> segment \<Rightarrow> 'p tone list \<Rightarrow> real \<Rightarrow> real \<Rightarrow> real
    \<Rightarrow> error + segment" where
  "tone2audio_from e r [] base_beat_ms duty_cycle sr = Inr r"
| "tone2audio_from e r (Note p # es) base_beat_ms duty_cycle sr =
     (let duty = fmul e base_beat_ms duty_cycle; empty_ms = fsub e base_beat_ms duty
      in case tone_segment (tone_frequency e p) sr duty empty_ms of
           Inl err \<Rightarrow> Inl err
         | Inr s \<Rightarrow> tone2audio_from e (r @ s) es base_beat_ms duty_cycle sr)"
| "tone2audio_from e r (Group ts # es) base_beat_ms duty_cycle sr =
     (case tone2audio_from e [] ts (fdiv e base_beat_ms 2) duty_cycle sr of
        Inl err \<Rightarrow> Inl err
      | Inr s \<Rightarrow> tone2audio_from e (r @ s) es base_beat_ms duty_cycle sr)"

definition tone2audio :: "'p env \<Rightarrow> 'p tone list \<Rightarrow> real \<Rightarrow> real \<Rightarrow> real \<Rightarrow> error + segment" where
  "tone2audio e tones base_beat_ms duty_cycle sr =
     tone2audio_from e [] tones base_beat_ms duty_cycle sr"

text \<open>The length of a segment in milliseconds (\<open>len(aud)\<close>).\<close>

fun piece_ms :: "piece \<Rightarrow> real" where
  "piece_ms (Sine f sr ms) = ms"
| "piece_ms (Fade f sr ms) = ms"
| "piece_ms (Silence sr ms) = ms"

definition segment_ms :: "segment \<Rightarrow> real" where
  "segment_ms s = sum_list (map piece_ms s)"

text \<open>
  \<^verbatim>\<open>
  sr = max_freq(tones)
  if sr > 11025:
      sr = 44100
  elif sr > 800:
      sr = 22050
  else:
      sr = 16000
  \<close>
\<close>

definition select_sample_rate :: "real \<Rightarrow> real" where
  "select_sample_rate m = (if m > 11025 then 44100 else if m > 800 then 22050 else 16000)"

text \<open>
  \<^verbatim>\<open>
  if not 0< duty_cycle <=1:
      raise ValueError('duty_cycle out of range (0, 1]')
  # find min freq required to save bandwidth
  sr = ...
  aud = await ...run_in_executor(None, tone2audio, tones, 60000.0/tempo, duty_cycle, sr)
  await self.play(aud.raw_data, repeat=repeat, sample_rate=sr, dtype='int16')
  \<close>
\<close>

definition beep :: "'p env \<Rightarrow> speaker \<Rightarrow> 'p tone list \<Rightarrow> int \<Rightarrow> real \<Rightarrow> real
    \<Rightarrow> speaker \<times> event list \<times> error option" where
  "beep e spk tones repeat tempo duty_cycle =
     (if \<not> (0 < duty_cycle \<and> duty_cycle \<le> 1)
      then (spk, [], Some (ValueError ''duty_cycle out of range (0, 1]''))
      else let sr = select_sample_rate (max_freq e tones)
           in if tempo = 0 then (spk, [], Some ZeroDivisionError)
              else case tone2audio e tones (fdiv e 60000 tempo) duty_cycle sr of
                     Inl err \<Rightarrow> (spk, [], Some err)
                   | Inr aud \<Rightarrow>
                       play e spk (Bytes (raw_data e aud)) repeat 1
                         \<lparr>kw_sample_rate = Some sr, kw_dtype = Some (IntT 16),
                          kw_block_duration = None\<rparr>)"

subsection \<open>A concrete environment\<close>

text \<open>
  One instance of the parameters, for evaluating the model on concrete inputs. Its
  arithmetic is exact; it is used below on inputs for which IEEE doubles compute the same
  results (\<open>.5 + .5\<close>, \<open>.5 * 22050\<close>, \<open>500 * .9 = 450.0\<close>, \<open>250 * .9 = 225.0\<close>, \<open>.5 * 32767\<close>;
  \<open>.5 * .95\<close> up to the representation of the literal \<open>.95\<close>). The byte width of a dtype
  is its bit width over 8 and a pitch is given by its frequency in Hz (\<open>Tone(440.0)\<close>).
  No file can be opened, and the codecs no property depends on are stubs.
\<close>

definition example_env :: "real env" where
  "example_env =
     \<lparr>fadd = (\<lambda>x y. x + y), fsub = (\<lambda>x y. x - y), fmul = (\<lambda>x y. x * y), fdiv = (\<lambda>x y. x / y),
      sample_width = (\<lambda>dt. case dt of IntT w \<Rightarrow> int (w div 8)
                                      | UIntT w \<Rightarrow> int (w div 8)
                                      | FloatT w \<Rightarrow> int (w div 8)),
      np_mul = (\<lambda>w x y. x * y),
      np_div = (\<lambda>w x y. x / y),
      np_round = (\<lambda>w x. x),
      cast_overflow = (\<lambda>w y. - (2 ^ (w - 1))),
      row_mean = (\<lambda>dt xs. sum_list xs / real (length xs)),
      float_bytes = (\<lambda>w x. replicate (w div 8) 0),
      tone_frequency = (\<lambda>p. p),
      raw_data = (\<lambda>s. []),
      urlopen_read = (\<lambda>s. Inl (RuntimeError ''no network'')),
      sound_file = (\<lambda>f. None),
      librosa_get_samplerate = (\<lambda>f. Inl (RuntimeError ''no decoder'')),
      librosa_load = (\<lambda>f sr. Inl (RuntimeError ''no decoder''))\<rparr>"

text \<open>
  A speaker with the sample rate and sample type that \<open>__init__\<close> sets and a block
  duration of half a second, and a call without keyword arguments.
\<close>

definition example_speaker :: speaker where
  "example_speaker =
     \<lparr>sample_rate = 22050, dtype = IntT 16, block_duration = 1 / 2,
      t_sr = 0, t_dt = IntT 16, t_bs = 0\<rparr>"

definition no_kw :: kw where
  "no_kw = \<lparr>kw_sample_rate = None, kw_dtype = None, kw_block_duration = None\<rparr>"

subsection \<open>Descriptions the properties compare the code with\<close>

text \<open>
  Pacing by block count, as a reading of ``the first \<open>preload\<close> blocks are pushed
  back-to-back, every later push is followed by a wait'': the first \<open>n\<close> blocks are
  pushed alone, each later one is followed by a wait of \<open>0.95 \<times> bd\<close>.
\<close>

fun claimed_pacing :: "'p env \<Rightarrow> nat \<Rightarrow> real \<Rightarrow> block list \<Rightarrow> event list" where
  "claimed_pacing e n bd [] = []"
| "claimed_pacing e 0 bd (raw # rest) =
     Put raw # Sleep (fmul e bd (95 / 100)) # claimed_pacing e 0 bd rest"
| "claimed_pacing e (Suc n) bd (raw # rest) = Put raw # claimed_pacing e n bd rest"

text \<open>
  The duration of \<open>i\<close> blocks as the code adds it up: \<open>bd\<close> added \<open>i\<close> times to 0, in float
  arithmetic.
\<close>

fun running_total :: "'p env \<Rightarrow> real \<Rightarrow> nat \<Rightarrow> real" where
  "running_total e bd 0 = 0"
| "running_total e bd (Suc i) = fadd e (running_total e bd i) bd"

text \<open>
  Pacing by duration: the block with index \<open>i\<close> (from 0) is pushed alone while the
  duration of the \<open>i\<close> blocks before it is less than \<open>preload\<close>, and is followed by a wait
  otherwise.
\<close>

fun duration_pacing :: "'p env \<Rightarrow> real \<Rightarrow> real \<Rightarrow> nat \<Rightarrow> block list \<Rightarrow> event list" where
  "duration_pacing e preload bd i [] = []"
| "duration_pacing e preload bd i (raw # rest) =
     (if running_total e bd i < preload then [Put raw]
      else [Put raw, Sleep (fmul e bd (95 / 100))])
     @ duration_pacing e preload bd (Suc i) rest"




text \<open>
  The time a phrase takes at a given beat: a pitch takes one beat, and the elements of a
  nested list each take half the beat of the list's own level.
\<close>

fun nominal_ms :: "'p tone list \<Rightarrow> real \<Rightarrow> real" where
  "nominal_ms [] b = 0"
| "nominal_ms (Note p # es) b = b + nominal_ms es b"
| "nominal_ms (Group ts # es) b = nominal_ms ts (b / 2) + nominal_ms es b"

text \<open>
  The time during which the notes of a phrase sound as the code computes it: the
  \<open>duty\<close> of every pitch, at a beat halved at every level of nesting.
\<close>

fun sounded_ms :: "'p env \<Rightarrow> 'p tone list \<Rightarrow> real \<Rightarrow> real \<Rightarrow> real" where
  "sounded_ms e [] b dc = 0"
| "sounded_ms e (Note p # es) b dc = fmul e b dc + sounded_ms e es b dc"
| "sounded_ms e (Group ts # es) b dc = sounded_ms e ts (fdiv e b 2) dc + sounded_ms e es b dc"

section \<open>Properties\<close>

subsection \<open>Chunking\<close>

lemma raw_blocks_concat:
  "0 < step \<Longrightarrow>
   concat (raw_blocks data step i) =
     drop i data @ replicate ((step - (length data - i) mod step) mod step) 0"
proof (induction data step i rule: raw_blocks.induct)
  case (1 data step i)
  show ?case
  proof (cases "length data \<le> i")
    case True
    then show ?thesis by simp
  next
    case False
    note open_end = False
    show ?thesis
    proof (cases "length data - i < step")
      case True
      with open_end have tail: "raw_blocks data step (i + step) = []" by simp
      from True open_end have pad: "(step - (length data - i) mod step) mod step = step - (length data - i)"
        by simp
      from True open_end tail pad "1.prems" show ?thesis
        by (subst raw_blocks.simps) (simp add: Let_def)
    next
      case False
      with open_end have full: "length (take step (drop i data)) = step" by simp
      from False have "(length data - (i + step)) mod step = (length data - i) mod step"
        by (metis diff_diff_left le_mod_geq not_less)
      moreover have "take step (drop i data) @ drop (i + step) data = drop i data"
        by (metis add.commute append_take_drop_id drop_drop)
      ultimately show ?thesis
        using open_end full "1.prems" "1.IH"
        by (subst raw_blocks.simps) (simp add: Let_def)
    qed
  qed
qed

lemma raw_blocks_length:
  "0 < step \<Longrightarrow> b \<in> set (raw_blocks data step i) \<Longrightarrow> length b = step"
proof (induction data step i rule: raw_blocks.induct)
  case (1 data step i)
  from "1.prems" have inside: "\<not> (step = 0 \<or> length data \<le> i)"
    by (cases "step = 0 \<or> length data \<le> i") auto
  with "1.prems"(2) have
    "b = (let c = take step (drop i data)
          in if length c < step then c @ replicate (step - length c) 0 else c)
     \<or> b \<in> set (raw_blocks data step (i + step))"
    by (subst (asm) raw_blocks.simps) (simp add: Let_def)
  then show ?case
  proof
    assume "b = (let c = take step (drop i data)
          in if length c < step then c @ replicate (step - length c) 0 else c)"
    then show ?thesis using inside by (auto simp: Let_def min_def)
  next
    assume "b \<in> set (raw_blocks data step (i + step))"
    with "1.IH" inside "1.prems"(1) show ?thesis by simp
  qed
qed

text \<open>
  C2. For every byte buffer and every positive block size (and positive sample width),
  \<open>raw_gen\<close> ends without an exception, the blocks it yields concatenate to the buffer
  followed by just enough zero bytes to reach the next multiple of the block length, and
  every block, the last included, is \<open>bs \<times> sample_width\<close> bytes long.
\<close>

theorem raw_gen_blocks:
  assumes "0 < bs" and "0 < sample_width e dt"
  shows "\<exists>blocks. raw_gen e data dt bs = (blocks, None)
           \<and> concat blocks =
               data @ replicate ((nat (bs * sample_width e dt)
                                   - length data mod nat (bs * sample_width e dt))
                                  mod nat (bs * sample_width e dt)) 0
           \<and> (\<forall>b \<in> set blocks. length b = nat bs * nat (sample_width e dt))"
proof -
  let ?n = "nat (bs * sample_width e dt)"
  from assms have pos: "0 < bs * sample_width e dt" by simp
  then have n: "0 < ?n" by simp
  from pos have "bs * sample_width e dt \<noteq> 0" and "\<not> bs * sample_width e dt < 0"
    by linarith+
  then have g: "raw_gen e data dt bs = (raw_blocks data ?n 0, None)"
    unfolding raw_gen_def Let_def by (simp only: if_False)
  have c: "concat (raw_blocks data ?n 0) = data @ replicate ((?n - length data mod ?n) mod ?n) 0"
    using raw_blocks_concat [OF n, of data 0] by simp
  have "?n = nat bs * nat (sample_width e dt)"
    using assms by (simp add: nat_mult_distrib)
  then have l: "\<forall>b \<in> set (raw_blocks data ?n 0). length b = nat bs * nat (sample_width e dt)"
    using raw_blocks_length [OF n] by metis
  from g c l show ?thesis by blast
qed

theorem raw_gen_blocks_witness:
  "(0::int) < 2 \<and> 0 < sample_width example_env (IntT 16)
   \<and> (\<exists>blocks. raw_gen example_env [1, 2, 3, 4, 5] (IntT 16) 2 = (blocks, None)
           \<and> concat blocks = [1, 2, 3, 4, 5] @ replicate 3 0
           \<and> (\<forall>b \<in> set blocks. length b = 4))"
proof -
  have w: "0 < sample_width example_env (IntT 16)" by (simp add: example_env_def)
  have b: "(0::int) < 2" by simp
  show ?thesis
    using raw_gen_blocks [OF b w, of "[1, 2, 3, 4, 5]"] w
    by (simp add: example_env_def)
qed

lemma raw_gen_empty:
  assumes "0 < bs" and "0 < sample_width e dt"
  shows "raw_gen e [] dt bs = ([], None)"
proof -
  from assms have pos: "0 < bs * sample_width e dt" by simp
  then have "bs * sample_width e dt \<noteq> 0" and "\<not> bs * sample_width e dt < 0"
    by linarith+
  then show ?thesis
    unfolding raw_gen_def Let_def by (simp only: if_False) simp
qed

lemma raw_gen_error:
  "snd (raw_gen e data dt bs) = Some err \<Longrightarrow> err = ValueError ''range() arg 3 must not be zero''"
  by (auto simp: raw_gen_def Let_def split: if_splits)

subsection \<open>Repetition\<close>

lemma chain_gens_replicate:
  "chain_gens (replicate n (xs, None)) = (concat (replicate n xs), None)"
  by (induction n) simp_all

lemma length_concat_replicate:
  "length (concat (replicate n xs)) = n * length xs"
  by (induction n) simp_all

lemma chain_gens_replicate_error:
  "snd (chain_gens (replicate n g)) = Some err \<Longrightarrow> snd g = Some err"
proof (induction n)
  case 0
  then show ?case by simp
next
  case (Suc n)
  obtain xs r where g: "g = (xs, r)" by (cases g)
  show ?case
  proof (cases r)
    case None
    with Suc g show ?thesis by simp
  next
    case (Some a)
    with Suc g show ?thesis by simp
  qed
qed

lemma repeat_gen_error:
  "snd (repeat_gen g n) = Some err \<Longrightarrow> snd g = Some err \<or> err = ValueError ''n must be >= 0''"
  by (auto simp: repeat_gen_def tee_def split: if_splits dest: chain_gens_replicate_error)

lemma repeat_gen_nothing:
  "fst (repeat_gen ([], None) n) = []"
proof -
  have "chain_gens (replicate m (([]::'a list), None)) = ([], None)" for m
    by (induction m) simp_all
  then show ?thesis
    by (simp add: repeat_gen_def tee_def)
qed

text \<open>
  C3. For every finite block sequence \<open>seq\<close> and every \<open>n \<ge> 1\<close>, \<open>repeat_gen\<close> yields \<open>seq\<close>
  concatenated with itself \<open>n\<close> times, in order and without an exception, which is
  \<open>n \<times> len(seq)\<close> blocks; for \<open>n = 1\<close> it passes any generator through unchanged.
\<close>

theorem repeat_gen_concat:
  assumes "1 \<le> n"
  shows "repeat_gen (seq, None) n = (concat (replicate (nat n) seq), None)
         \<and> length (fst (repeat_gen (seq, None) n)) = nat n * length seq
         \<and> repeat_gen g 1 = g"
proof -
  have one: "repeat_gen g 1 = g" by (simp add: repeat_gen_def)
  have eq: "repeat_gen (seq, None) n = (concat (replicate (nat n) seq), None)"
  proof (cases "n = 1")
    case True
    then show ?thesis by (simp add: repeat_gen_def)
  next
    case False
    with assms show ?thesis
      by (simp add: repeat_gen_def tee_def chain_gens_replicate)
  qed
  from eq one show ?thesis by (simp add: length_concat_replicate)
qed

theorem repeat_gen_concat_witness:
  "(1::int) \<le> 3
   \<and> repeat_gen ([[1::byte], [2]], None) 3 = ([[1], [2], [1], [2], [1], [2]], None)
   \<and> length (fst (repeat_gen ([[1::byte], [2]], None) 3)) = 6
   \<and> repeat_gen ([[1::byte], [2]], None) 1 = ([[1], [2]], None)"
  using repeat_gen_concat [of 3 "[[1::byte], [2]]" "([[1::byte], [2]], None)"]
  by (simp add: numeral_3_eq_3)

subsection \<open>Playback\<close>

text \<open>
  C8. A source that is not a string, has no \<open>read\<close> attribute, is not a numpy array, not
  \<open>bytes\<close> and not iterable makes \<open>play\<close> raise \<open>TypeError('Unable to open ...')\<close> (the
  spec's \<open>UnsupportedSourceError\<close>) before the channel is opened: nothing is sent and the
  speaker is unchanged.
\<close>

theorem play_other_source:
  "play e spk Other repeat preload k = (spk, [], Some (TypeError ''Unable to open''))"
  by (simp add: play_def normalize_source_def Let_def)

text \<open>
  C10. For an empty byte buffer or a numeric array with no samples, and a positive block
  size and sample width, the encoders yield no block and raise nothing; \<open>play\<close> of such a
  source opens and closes the channel and puts no block into it, whatever \<open>repeat\<close> is.
\<close>

theorem empty_source_no_blocks:
  assumes "sr = (case kw_sample_rate k of None \<Rightarrow> sample_rate spk | Some v \<Rightarrow> v)"
    and "dt = (case kw_dtype k of None \<Rightarrow> dtype spk | Some v \<Rightarrow> v)"
    and "bd = (case kw_block_duration k of None \<Rightarrow> block_duration spk | Some v \<Rightarrow> v)"
    and "bs = py_int (fmul e bd sr)"
    and "0 < bs" and "0 < sample_width e dt"
  shows "raw_gen e [] dt bs = ([], None)
         \<and> np_gen e (Arr1 d []) dt bs = ([], None)
         \<and> np_gen e (Arr2 d []) dt bs = ([], None)
         \<and> fst (snd (play e spk (Bytes []) repeat preload k)) = [Open sr dt bs, Close]
         \<and> fst (snd (play e spk (NdArray (Arr1 d [])) repeat preload k)) = [Open sr dt bs, Close]
         \<and> fst (snd (play e spk (NdArray (Arr2 d [])) repeat preload k)) = [Open sr dt bs, Close]"
proof -
  have r: "raw_gen e [] dt bs = ([], None)" using assms(5,6) by (rule raw_gen_empty)
  have c1: "tobytes e (np_convert e (Arr1 d []) dt) = []"
    by (cases d; cases dt) (simp_all add: tobytes_def)
  have c2: "tobytes e (np_convert e (Arr2 d []) dt) = []"
    by (cases d; cases dt) (simp_all add: tobytes_def)
  have n1: "np_gen e (Arr1 d []) dt bs = ([], None)"
    unfolding np_gen_def c1 by (rule r)
  have n2: "np_gen e (Arr2 d []) dt bs = ([], None)"
    unfolding np_gen_def c2 by (rule r)
  from r n1 n2 assms(1-4) [symmetric] show ?thesis
    by (simp add: play_def normalize_source_def stream_def Let_def repeat_gen_nothing)
qed

theorem empty_source_no_blocks_witness:
  "(0::int) < 11025 \<and> 0 < sample_width example_env (IntT 16)
   \<and> raw_gen example_env [] (IntT 16) 11025 = ([], None)
   \<and> np_gen example_env (Arr1 (FloatT 64) []) (IntT 16) 11025 = ([], None)
   \<and> np_gen example_env (Arr2 (FloatT 64) []) (IntT 16) 11025 = ([], None)
   \<and> fst (snd (play example_env example_speaker (Bytes []) 3 1 no_kw))
       = [Open 22050 (IntT 16) 11025, Close]
   \<and> fst (snd (play example_env example_speaker (NdArray (Arr1 (FloatT 64) [])) 3 1 no_kw))
       = [Open 22050 (IntT 16) 11025, Close]
   \<and> fst (snd (play example_env example_speaker (NdArray (Arr2 (FloatT 64) [])) 3 1 no_kw))
       = [Open 22050 (IntT 16) 11025, Close]"
proof -
  have sr: "22050 = (case kw_sample_rate no_kw of None \<Rightarrow> sample_rate example_speaker | Some v \<Rightarrow> v)"
    by (simp add: no_kw_def example_speaker_def)
  have dt: "IntT 16 = (case kw_dtype no_kw of None \<Rightarrow> dtype example_speaker | Some v \<Rightarrow> v)"
    by (simp add: no_kw_def example_speaker_def)
  have bd: "1 / 2 = (case kw_block_duration no_kw of None \<Rightarrow> block_duration example_speaker
                      | Some v \<Rightarrow> v)"
    by (simp add: no_kw_def example_speaker_def)
  have bs: "11025 = py_int (fmul example_env (1 / 2) 22050)"
    by (simp add: py_int_def example_env_def)
  have b: "(0::int) < 11025" by simp
  have w: "0 < sample_width example_env (IntT 16)" by (simp add: example_env_def)
  show ?thesis
    using empty_source_no_blocks [OF sr dt bd bs b w, of "FloatT 64" 3 1] b w
    by simp
qed

lemma push_blocks_by_total:
  assumes "\<forall>c. c \<le> fadd e c bd"
    and "(count < preload) = (running_total e bd i < preload)"
    and "count < preload \<Longrightarrow> count = running_total e bd i"
  shows "push_blocks e count preload bd blocks = duration_pacing e preload bd i blocks"
  using assms(2,3)
proof (induction blocks arbitrary: count i)
  case Nil
  then show ?case by simp
next
  case (Cons raw rest)
  show ?case
  proof (cases "count < preload")
    case True
    with Cons.prems have c: "count = running_total e bd i"
      and below: "running_total e bd i < preload" by simp_all
    have next_count: "fadd e count bd = running_total e bd (Suc i)"
      using c by simp
    have "push_blocks e (fadd e count bd) preload bd rest
          = duration_pacing e preload bd (Suc i) rest"
      by (rule Cons.IH) (simp_all only: next_count)
    with True below show ?thesis by simp
  next
    case False
    with Cons.prems have above: "\<not> running_total e bd i < preload" by simp
    have "running_total e bd i \<le> running_total e bd (Suc i)"
      using assms(1) by simp
    with above have above': "\<not> running_total e bd (Suc i) < preload" by linarith
    have "push_blocks e count preload bd rest = duration_pacing e preload bd (Suc i) rest"
      by (rule Cons.IH) (use False above' in simp_all)
    with False above show ?thesis by simp
  qed
qed

text \<open>In exact arithmetic the duration of \<open>i\<close> blocks is \<open>i \<times> bd\<close>.\<close>

lemma running_total_exact:
  "fadd e = (\<lambda>x y. x + y) \<Longrightarrow> running_total e bd i = real i * bd"
  by (induction i) (simp_all add: algebra_simps)

text \<open>
  C1, as the code has it. \<open>count\<close> adds up the block duration, not the number of blocks.
  For every source that reaches the streaming loop (\<open>normalize_source\<close> gives a generator), and
  a float addition under which adding \<open>bd\<close> never decreases a number (as it is for
  \<open>bd \<ge> 0\<close>), the block with index \<open>i\<close> of the repeated sequence is pushed with no delay
  exactly when the duration of the \<open>i\<close> blocks before it, \<open>bd\<close> added \<open>i\<close> times to 0, is less
  than \<open>preload\<close>, and every later push is followed by a wait of \<open>0.95 \<times> bd\<close> seconds before
  the next one.
\<close>

theorem play_pacing:
  assumes "sr = (case kw_sample_rate k of None \<Rightarrow> sample_rate spk | Some v \<Rightarrow> v)"
    and "dt = (case kw_dtype k of None \<Rightarrow> dtype spk | Some v \<Rightarrow> v)"
    and "bd = (case kw_block_duration k of None \<Rightarrow> block_duration spk | Some v \<Rightarrow> v)"
    and "normalize_source e sr dt bd (py_int (fmul e bd sr)) src = Inr (sr', bs', Some g)"
    and "\<forall>c. c \<le> fadd e c bd"
  shows "fst (snd (play e spk src repeat preload k))
         = Open sr' dt bs'
           # duration_pacing e preload bd 0 (fst (repeat_gen g repeat)) @ [Close]"
proof -
  have "push_blocks e 0 preload bd blocks = duration_pacing e preload bd 0 blocks" for blocks
    using assms(5) by (intro push_blocks_by_total) simp_all
  with assms(1-3) [symmetric] assms(4) show ?thesis
    by (simp add: play_def stream_def Let_def)
qed

theorem play_pacing_witness:
  "normalize_source example_env 4 (IntT 16) (1 / 2) (py_int (fmul example_env (1 / 2) 4))
       (Bytes [1, 2, 3, 4, 5, 6, 7, 8, 9])
     = Inr (4, 2, Some ([[1, 2, 3, 4], [5, 6, 7, 8], [9, 0, 0, 0]], None))
   \<and> (\<forall>c. c \<le> fadd example_env c (1 / 2))
   \<and> fst (snd (play example_env example_speaker (Bytes [1, 2, 3, 4, 5, 6, 7, 8, 9]) 1 1
                 \<lparr>kw_sample_rate = Some 4, kw_dtype = None, kw_block_duration = None\<rparr>))
       = [Open 4 (IntT 16) 2, Put [1, 2, 3, 4], Put [5, 6, 7, 8], Put [9, 0, 0, 0],
          Sleep (19 / 40), Close]"
proof -
  let ?k = "\<lparr>kw_sample_rate = Some 4, kw_dtype = None, kw_block_duration = None\<rparr>"
  have sr: "4 = (case kw_sample_rate ?k of None \<Rightarrow> sample_rate example_speaker | Some v \<Rightarrow> v)"
    by simp
  have dt: "IntT 16 = (case kw_dtype ?k of None \<Rightarrow> dtype example_speaker | Some v \<Rightarrow> v)"
    by (simp add: example_speaker_def)
  have bd: "1 / 2 = (case kw_block_duration ?k of None \<Rightarrow> block_duration example_speaker
                      | Some v \<Rightarrow> v)"
    by (simp add: example_speaker_def)
  have n: "normalize_source example_env 4 (IntT 16) (1 / 2) (py_int (fmul example_env (1 / 2) 4))
             (Bytes [1, 2, 3, 4, 5, 6, 7, 8, 9])
           = Inr (4, 2, Some ([[1, 2, 3, 4], [5, 6, 7, 8], [9, 0, 0, 0]], None))"
    by code_simp
  have m: "\<forall>c. c \<le> fadd example_env c (1 / 2)"
    by (simp add: example_env_def)
  have p: "duration_pacing example_env 1 (1 / 2) 0 [[1, 2, 3, 4], [5, 6, 7, 8], [9, 0, 0, 0]]
           = [Put [1, 2, 3, 4], Put [5, 6, 7, 8], Put [9, 0, 0, 0], Sleep (19 / 40)]"
    by (simp add: example_env_def)
  show ?thesis
    using play_pacing [OF sr dt bd n m, of 1 1] n m p
    by (simp add: repeat_gen_def)
qed

text \<open>
  C1, as stated, fails: with \<open>preload = 1\<close>, a block duration of half a second and three
  blocks, the second block is not followed by a wait, so two blocks and not one are
  pushed back-to-back.
\<close>

theorem play_pacing_counterexample:
  "fst (snd (play example_env example_speaker (Blocks ([[1], [2], [3]], None)) 1 1 no_kw))
     = [Open 22050 (IntT 16) 11025, Put [1], Put [2], Put [3], Sleep (19 / 40), Close]
   \<and> fst (snd (play example_env example_speaker (Blocks ([[1], [2], [3]], None)) 1 1 no_kw))
     \<noteq> Open 22050 (IntT 16) 11025
         # claimed_pacing example_env 1 (1 / 2) [[1], [2], [3]] @ [Close]"
  by (simp add: play_def normalize_source_def stream_def repeat_gen_def Let_def example_speaker_def
      no_kw_def py_int_def example_env_def)

subsection \<open>Tones\<close>

lemma tone_segment_error:
  "tone_segment f sr duty m = Inl err \<Longrightarrow> err \<noteq> ValueError ''duty_cycle out of range (0, 1]''"
  by (auto simp: tone_segment_def split: if_splits)

lemma tone2audio_from_error:
  "tone2audio_from e r tones b dc sr = Inl err
   \<Longrightarrow> err \<noteq> ValueError ''duty_cycle out of range (0, 1]''"
proof (induction e r tones b dc sr rule: tone2audio_from.induct)
  case (1 e r b dc sr)
  then show ?case by simp
next
  case (2 e r p es b dc sr)
  then show ?case
    by (auto simp: Let_def split: sum.splits dest: tone_segment_error)
next
  case (3 e r ts es b dc sr)
  then show ?case
    by (auto split: sum.splits)
qed

lemma play_bytes_error:
  assumes "snd (snd (play e spk (Bytes b) repeat preload k)) = Some err"
  shows "err \<noteq> ValueError ''duty_cycle out of range (0, 1]''"
proof -
  from assms obtain dt bs where "snd (repeat_gen (raw_gen e b dt bs) repeat) = Some err"
    by (auto simp: play_def normalize_source_def stream_def Let_def)
  then have "err = ValueError ''range() arg 3 must not be zero''
             \<or> err = ValueError ''n must be >= 0''"
    by (auto dest!: repeat_gen_error raw_gen_error)
  then show ?thesis by auto
qed

text \<open>
  C4. \<open>beep\<close> raises \<open>ValueError('duty_cycle out of range (0, 1]')\<close> (the spec's
  \<open>InvalidParameterError\<close>) exactly when \<open>duty_cycle\<close> is outside \<open>(0, 1]\<close>; it does so, sending
  nothing, for \<open>duty_cycle = 0\<close> and for \<open>duty_cycle = 1.5\<close>.
\<close>

theorem beep_duty_cycle_check:
  "(snd (snd (beep e spk tones repeat tempo duty_cycle))
      = Some (ValueError ''duty_cycle out of range (0, 1]''))
     = (\<not> (0 < duty_cycle \<and> duty_cycle \<le> 1))
   \<and> beep e spk tones repeat tempo 0
       = (spk, [], Some (ValueError ''duty_cycle out of range (0, 1]''))
   \<and> beep e spk tones repeat tempo (3 / 2)
       = (spk, [], Some (ValueError ''duty_cycle out of range (0, 1]''))"
proof -
  have inside: "snd (snd (beep e spk tones repeat tempo duty_cycle))
      \<noteq> Some (ValueError ''duty_cycle out of range (0, 1]'')"
    if ok: "0 < duty_cycle \<and> duty_cycle \<le> 1"
  proof (cases "tempo = 0")
    case True
    with ok show ?thesis by (simp add: beep_def Let_def)
  next
    case False
    show ?thesis
    proof (cases "tone2audio e tones (fdiv e 60000 tempo) duty_cycle
                    (select_sample_rate (max_freq e tones))")
      case (Inl err)
      then have "err \<noteq> ValueError ''duty_cycle out of range (0, 1]''"
        unfolding tone2audio_def by (rule tone2audio_from_error)
      with ok False Inl show ?thesis by (simp add: beep_def Let_def)
    next
      case (Inr aud)
      with ok False show ?thesis
        using play_bytes_error by (fastforce simp: beep_def Let_def)
    qed
  qed
  have outside: "snd (snd (beep e spk tones repeat tempo duty_cycle))
      = Some (ValueError ''duty_cycle out of range (0, 1]'')"
    if "\<not> (0 < duty_cycle \<and> duty_cycle \<le> 1)"
    using that by (simp add: beep_def)
  from inside outside show ?thesis by (auto simp: beep_def)
qed








lemma tone_segment_ms:
  "tone_segment f sr duty m = Inr s \<Longrightarrow> segment_ms s = duty"
  by (auto simp: tone_segment_def segment_ms_def split: if_splits)

lemma segment_ms_append:
  "segment_ms (r @ s) = segment_ms r + segment_ms s"
  by (simp add: segment_ms_def)

text \<open>
  Whatever the phrase, a rendering that succeeds lasts as long as its notes sound: the
  crossfade over the whole silence takes the gap out of every note.
\<close>

lemma tone2audio_from_ms:
  "tone2audio_from e r tones b dc sr = Inr s
   \<Longrightarrow> segment_ms s = segment_ms r + sounded_ms e tones b dc"
proof (induction e r tones b dc sr arbitrary: s rule: tone2audio_from.induct)
  case (1 e r b dc sr)
  then show ?case by simp
next
  case (2 e r p es b dc sr)
  from "2.prems" obtain s1 where
    s1: "tone_segment (tone_frequency e p) sr (fmul e b dc) (fsub e b (fmul e b dc)) = Inr s1"
    and rest: "tone2audio_from e (r @ s1) es b dc sr = Inr s"
    by (auto simp: Let_def split: sum.splits)
  from "2.IH" [OF refl refl s1 rest] tone_segment_ms [OF s1]
  show ?case by (simp add: segment_ms_append algebra_simps)
next
  case (3 e r ts es b dc sr)
  from "3.prems" obtain s1 where
    s1: "tone2audio_from e [] ts (fdiv e b 2) dc sr = Inr s1"
    and rest: "tone2audio_from e (r @ s1) es b dc sr = Inr s"
    by (auto split: sum.splits)
  from "3.IH"(1) [OF s1] "3.IH"(2) [OF s1 rest]
  show ?case by (simp add: segment_ms_append segment_ms_def algebra_simps)
qed

text \<open>
  C6 at the phrase \<open>[A4, [B4, C5]]\<close>, a beat of 500 ms, the default duty cycle \<open>.9\<close> and
  the rate 16 kHz that \<open>beep\<close> selects for these pitches. The float results the
  rendering needs are hypotheses: \<open>500 * .9 = 450.0\<close>, \<open>500 - 450.0 = 50.0\<close>,
  \<open>500 / 2 = 250.0\<close>, \<open>250.0 * .9 = 225.0\<close>, \<open>250.0 - 225.0 = 25.0\<close>. The nesting halves the
  beat and the notes come in order, but every note ends with its fade and no silence
  follows it: A4 lasts 450 ms, B4 and C5 last 225 ms each, and the whole rendering lasts
  900 ms, not the 1000 ms of the phrase's three beats.
\<close>

theorem nested_phrase_render:
  assumes "fmul e 500 dc = 450" and "fsub e 500 450 = 50" and "fdiv e 500 2 = 250"
    and "fmul e 250 dc = 225" and "fsub e 250 225 = 25"
  shows "tone2audio e [Note a, Group [Note b, Note c]] 500 dc 16000
     = Inr [Sine (tone_frequency e a) 16000 400, Fade (tone_frequency e a) 16000 50,
            Sine (tone_frequency e b) 16000 200, Fade (tone_frequency e b) 16000 25,
            Sine (tone_frequency e c) 16000 200, Fade (tone_frequency e c) 16000 25]
   \<and> segment_ms [Sine (tone_frequency e a) 16000 400, Fade (tone_frequency e a) 16000 50,
            Sine (tone_frequency e b) 16000 200, Fade (tone_frequency e b) 16000 25,
            Sine (tone_frequency e c) 16000 200, Fade (tone_frequency e c) 16000 25] = 900
   \<and> nominal_ms [Note a, Group [Note b, Note c]] 500 = 1000"
  using assms
  by (simp add: tone2audio_def tone_segment_def whole_def Let_def segment_ms_def)

theorem nested_phrase_render_witness:
  "fmul example_env 500 (9 / 10) = 450 \<and> fsub example_env 500 450 = 50
   \<and> fdiv example_env 500 2 = 250 \<and> fmul example_env 250 (9 / 10) = 225
   \<and> fsub example_env 250 225 = 25
   \<and> tone2audio example_env [Note 440, Group [Note 494, Note 523]] 500 (9 / 10) 16000
     = Inr [Sine 440 16000 400, Fade 440 16000 50, Sine 494 16000 200, Fade 494 16000 25,
            Sine 523 16000 200, Fade 523 16000 25]
   \<and> segment_ms [Sine 440 16000 400, Fade 440 16000 50, Sine 494 16000 200,
                  Fade 494 16000 25, Sine 523 16000 200, Fade 523 16000 25] = 900
   \<and> nominal_ms [Note (440::real), Group [Note 494, Note 523]] 500 = 1000"
proof -
  have h1: "fmul example_env 500 (9 / 10) = 450" and h2: "fsub example_env 500 450 = 50"
    and h3: "fdiv example_env 500 2 = 250" and h4: "fmul example_env 250 (9 / 10) = 225"
    and h5: "fsub example_env 250 225 = 25"
    by (simp_all add: example_env_def)
  have f: "tone_frequency example_env p = p" for p
    by (simp add: example_env_def)
  show ?thesis
    using nested_phrase_render [OF h1 h2 h3 h4 h5, of 440 494 523] h1 h2 h3 h4 h5
    by (simp add: f)
qed

subsection \<open>Sample conversion\<close>

text \<open>A float array in \<open>[-1, 1]\<close> encoded as \<open>int16\<close>, two samples to a block.\<close>

lemma float_to_int_example:
  "np_gen example_env (Arr1 (FloatT 64) [1 / 2, - 1 / 2, 1, - 1]) (IntT 16) 2
     = ([[255, 63, 1, 192], [255, 127, 1, 128]], None)"
  by code_simp

text \<open>A product within the target's range is truncated toward zero.\<close>

lemma astype_int_in_range:
  "- (2 ^ (w - 1)) \<le> py_int y \<Longrightarrow> py_int y < 2 ^ (w - 1)
   \<Longrightarrow> astype_int e w y = real_of_int (py_int y)"
  by (simp add: astype_int_def)

lemma sample_bytes_fun:
  "sample_bytes e (IntT v) = (\<lambda>x. le_bytes (v div 8) (py_int x))"
  "sample_bytes e (UIntT v) = (\<lambda>x. le_bytes (v div 8) (py_int x))"
  "sample_bytes e (FloatT v) = float_bytes e v"
  by (rule ext, simp)+

text \<open>
  C7, as the code has it, for a one-dimensional array; the blocks are \<open>raw_gen\<close> of the
  bytes given here. A float source with a signed integer target is multiplied, in the
  source's float type, by the target type's maximum (32767 for \<open>int16\<close>) and cast,
  which truncates toward zero; its samples are emitted as little-endian integers of the
  target's width (the \<open>float64\<close> samples 0.5, -0.5, 1, -1 become the \<open>int16\<close> samples
  16383, -16383, 32767, -32767). A signed integer source with a float target is cast and
  divided by the source type's maximum (the \<open>int16\<close> samples 32767, 0, -32767 become
  1, 0, -1). In every other case, a source of the target's family or
  an unsigned source or target, nothing is converted: the samples are emitted
  unchanged, in the source's own type and width.
\<close>

theorem np_convert_rules:
  "np_gen e (Arr1 (FloatT v) xs) (IntT w) bs
     = raw_gen e (concat (map (\<lambda>x. le_bytes (w div 8)
                                   (py_int (astype_int e w (np_mul e v x (int_max w))))) xs))
         (IntT w) bs
   \<and> np_gen e (Arr1 (IntT v) xs) (FloatT w) bs
     = raw_gen e (concat (map (\<lambda>x. float_bytes e w (np_div e w (np_round e w x) (int_max v))) xs))
         (FloatT w) bs
   \<and> np_gen e (Arr1 (IntT v) xs) (IntT w) bs
     = raw_gen e (concat (map (\<lambda>x. le_bytes (v div 8) (py_int x)) xs)) (IntT w) bs
   \<and> np_gen e (Arr1 (FloatT v) xs) (FloatT w) bs
     = raw_gen e (concat (map (float_bytes e v) xs)) (FloatT w) bs
   \<and> np_gen e (Arr1 (UIntT v) xs) dt bs
     = raw_gen e (concat (map (\<lambda>x. le_bytes (v div 8) (py_int x)) xs)) dt bs
   \<and> np_convert e (Arr1 d xs) (UIntT w) = (d, xs)
   \<and> int_max 16 = 32767 \<and> int_max 32 = 2147483647
   \<and> astype_int e 16 (32767 / 2) = 16383 \<and> astype_int e 16 (- 32767 / 2) = - 16383
   \<and> le_bytes 2 16383 = [255, 63] \<and> le_bytes 2 (- 16383) = [1, 192]
   \<and> np_gen example_env (Arr1 (FloatT 64) [1 / 2, - 1 / 2, 1, - 1]) (IntT 16) 2
       = ([[255, 63, 1, 192], [255, 127, 1, 128]], None)
   \<and> np_convert example_env (Arr1 (IntT 16) [32767, 0, - 32767]) (FloatT 32)
       = (FloatT 32, [1, 0, - 1])"
proof -
  have fi: "np_gen e (Arr1 (FloatT v) xs) (IntT w) bs
     = raw_gen e (concat (map (\<lambda>x. le_bytes (w div 8)
                                   (py_int (astype_int e w (np_mul e v x (int_max w))))) xs))
         (IntT w) bs"
    by (simp add: np_gen_def tobytes_def comp_def sample_bytes_fun)
  have "if": "np_gen e (Arr1 (IntT v) xs) (FloatT w) bs
     = raw_gen e (concat (map (\<lambda>x. float_bytes e w (np_div e w (np_round e w x) (int_max v))) xs))
         (FloatT w) bs"
    by (simp add: np_gen_def tobytes_def comp_def sample_bytes_fun)
  have ii: "np_gen e (Arr1 (IntT v) xs) (IntT w) bs
     = raw_gen e (concat (map (\<lambda>x. le_bytes (v div 8) (py_int x)) xs)) (IntT w) bs"
    by (simp add: np_gen_def tobytes_def sample_bytes_fun)
  have ff: "np_gen e (Arr1 (FloatT v) xs) (FloatT w) bs
     = raw_gen e (concat (map (float_bytes e v) xs)) (FloatT w) bs"
    by (simp add: np_gen_def tobytes_def sample_bytes_fun)
  have us: "np_gen e (Arr1 (UIntT v) xs) dt bs
     = raw_gen e (concat (map (\<lambda>x. le_bytes (v div 8) (py_int x)) xs)) dt bs"
    by (cases dt) (simp_all add: np_gen_def tobytes_def sample_bytes_fun)
  have ut: "np_convert e (Arr1 d xs) (UIntT w) = (d, xs)"
    by (cases d) simp_all
  have m: "int_max 16 = 32767 \<and> int_max 32 = 2147483647"
    by (simp add: int_max_def)
  have c: "astype_int e 16 (32767 / 2) = 16383 \<and> astype_int e 16 (- 32767 / 2) = - 16383"
    by (simp add: astype_int_def py_int_def)
  have b: "le_bytes 2 16383 = [255, 63] \<and> le_bytes 2 (- 16383) = [1, 192]"
    by code_simp
  have x1: "np_gen example_env (Arr1 (FloatT 64) [1 / 2, - 1 / 2, 1, - 1]) (IntT 16) 2
       = ([[255, 63, 1, 192], [255, 127, 1, 128]], None)"
    by (rule float_to_int_example)
  have x2: "np_convert example_env (Arr1 (IntT 16) [32767, 0, - 32767]) (FloatT 32)
       = (FloatT 32, [1, 0, - 1])"
    by (simp add: example_env_def int_max_def)
  from fi "if" ii ff us ut m c b x1 x2 show ?thesis by blast
qed

text \<open>
  C7, as stated, fails. An \<open>int32\<close> array holding 70000 with target \<open>int16\<close> is not cast
  to the target type: it stays \<open>int32\<close> and keeps the value 70000, which no \<open>int16\<close>
  holds, and its four bytes are cut into two blocks of one \<open>int16\<close> sample each.
\<close>

theorem np_convert_counterexample:
  "np_convert example_env (Arr1 (IntT 32) [70000]) (IntT 16) = (IntT 32, [70000])
   \<and> fst (np_convert example_env (Arr1 (IntT 32) [70000]) (IntT 16)) \<noteq> IntT 16
   \<and> int_max 16 < 70000
   \<and> np_gen example_env (Arr1 (IntT 32) [70000]) (IntT 16) 1 = ([[112, 17], [1, 0]], None)"
  by code_simp

end
